theory Spec2Isabelle
  imports Main
begin

section \<open>Python values used by the client\<close>

text \<open>
  Python strings are modelled as \<open>string\<close>, read as their UTF-8 bytes, so that
  \<open>str.encode()\<close> and \<open>bytes.decode()\<close> are the identity. A \<open>dict\<close> is an association
  list in insertion order whose keys are distinct; \<open>d[k] = v\<close> replaces the value in place
  when the key is present and appends the pair otherwise.
\<close>

type_synonym ('k, 'v) dict = "('k \<times> 'v) list"

fun dict_set :: "('k, 'v) dict \<Rightarrow> 'k \<Rightarrow> 'v \<Rightarrow> ('k, 'v) dict" where
  "dict_set [] k v = [(k, v)]"
| "dict_set ((k', v') # d) k v =
     (if k' = k then (k, v) # d else (k', v') # dict_set d k v)"

definition dict_get :: "('k, 'v) dict \<Rightarrow> 'k \<Rightarrow> 'v option" where
  "dict_get d k = map_of d k"

definition dict_keys :: "('k, 'v) dict \<Rightarrow> 'k list" where
  "dict_keys d = map fst d"

text \<open>\<open>d.update(other)\<close>: the items of \<open>other\<close> are stored one by one, in order.\<close>

definition dict_update :: "('k, 'v) dict \<Rightarrow> ('k, 'v) dict \<Rightarrow> ('k, 'v) dict" where
  "dict_update d other = fold (\<lambda>(k, v) acc. dict_set acc k v) other d"

text \<open>
  JSON values as \<open>json.loads\<close> returns them and as the client builds them. Numbers are
  restricted to integers, the only numbers the client itself produces. A Python \<open>str\<close>
  is \<open>JStr\<close>, a \<open>dict\<close> is \<open>JObject\<close>.
\<close>

datatype json =
    JNull
  | JBool bool
  | JInt int
  | JStr string
  | JList "json list"
  | JObject "(string \<times> json) list"

text \<open>\<open>str.rstrip(c)\<close> and \<open>str.lstrip(c)\<close> for a one-character argument: every
  trailing (leading) occurrence of the character is removed.\<close>

definition rstrip :: "char \<Rightarrow> string \<Rightarrow> string" where
  "rstrip c s = rev (dropWhile (\<lambda>x. x = c) (rev s))"

definition lstrip :: "char \<Rightarrow> string \<Rightarrow> string" where
  "lstrip c s = dropWhile (\<lambda>x. x = c) s"

definition endswith :: "string \<Rightarrow> char \<Rightarrow> bool" where
  "endswith s c = (case rev s of [] \<Rightarrow> False | x # _ \<Rightarrow> x = c)"

definition startswith :: "string \<Rightarrow> char \<Rightarrow> bool" where
  "startswith s c = (case s of [] \<Rightarrow> False | x # _ \<Rightarrow> x = c)"

text \<open>\<open>str(n)\<close> for an integer: decimal digits, with a leading minus sign below zero.\<close>

definition digit_char :: "nat \<Rightarrow> char" where
  "digit_char n = char_of (48 + n)"

fun str_nat :: "nat \<Rightarrow> string" where
  "str_nat n = (if n < 10 then [digit_char n] else str_nat (n div 10) @ [digit_char (n mod 10)])"

declare str_nat.simps [simp del]

definition str_int :: "int \<Rightarrow> string" where
  "str_int i = (if i < 0 then CHR ''-'' # str_nat (nat (- i)) else str_nat (nat i))"

text \<open>\<open>sep.join(xs)\<close>.\<close>

fun join :: "string \<Rightarrow> string list \<Rightarrow> string" where
  "join sep [] = []"
| "join sep [x] = x"
| "join sep (x # y # ys) = x @ sep @ join sep (y # ys)"

section \<open>The HTTP transport\<close>

text \<open>
  The arguments of one \<open>session.request(...)\<close> call, the response object it returns, and
  the exceptions the client can end with. \<open>HTTPError\<close> is the exception object that
  \<open>Response.raise_for_status\<close> builds: its message and the response it was raised for.
\<close>

record request =
  http_method :: string
  url :: string
  params :: "(string, json) dict option"
  data :: "string option"
  json_body :: "json option"
  headers :: "(string, string) dict"

record response =
  status_code :: int
  reason :: string
  resp_url :: string
  resp_text :: string

datatype error =
    HTTPError string response
  | RequestException string
  | ValueError string
  | KeyError string
  | TypeError string
  | AttributeError string
  | OSError string

datatype log_record =
    Debug string
  | Info string
  | Error string
  | ErrorDetails json

text \<open>
  The session object owns the headers sent with every request. The network is a state
  \<open>'w\<close> that each call may change; a call either raises (connection failure, timeout)
  or returns a response. The record \<open>io\<close> threads the network, the calls issued so far
  and the log through the client's methods.
\<close>

type_synonym session = "(string, string) dict"

type_synonym 'w transport = "'w \<Rightarrow> session \<Rightarrow> request \<Rightarrow> (error + response) \<times> 'w"

record 'w io =
  world :: 'w
  sent :: "request list"
  log :: "log_record list"

text \<open>
  What the client takes from outside the repository: the JSON decoder behind
  \<open>response.json()\<close> (\<open>None\<close> stands for the \<open>ValueError\<close> it raises on a body
  that is not JSON), \<open>session.request\<close>, reading a file as bytes (\<open>None\<close> when
  \<open>open\<close> fails), \<open>mimetypes.guess_type\<close> with its system-dependent table, and
  the \<open>repr\<close> of a list or a dict.
\<close>

record 'w platform =
  json_loads :: "string \<Rightarrow> json option"
  session_request :: "'w transport"
  read_bytes :: "string \<Rightarrow> string option"
  guess_type :: "string \<Rightarrow> string option \<times> string option"
  py_repr :: "json \<Rightarrow> string"

text \<open>\<open>str(e)\<close> of an exception.\<close>

fun error_str :: "error \<Rightarrow> string" where
  "error_str (HTTPError m r) = m"
| "error_str (RequestException m) = m"
| "error_str (ValueError m) = m"
| "error_str (KeyError k) = [CHR 0x27] @ k @ [CHR 0x27]"
| "error_str (TypeError m) = m"
| "error_str (AttributeError m) = m"
| "error_str (OSError m) = m"

text \<open>\<open>Response.raise_for_status\<close> of the requests library: a client error for
  400..499, a server error for 500..599, nothing otherwise.\<close>

definition raise_for_status :: "response \<Rightarrow> error + unit" where
  "raise_for_status r =
     (if 400 \<le> status_code r \<and> status_code r < 500 then
        Inl (HTTPError (str_int (status_code r) @ '' Client Error: '' @ reason r
                          @ '' for url: '' @ resp_url r) r)
      else if 500 \<le> status_code r \<and> status_code r < 600 then
        Inl (HTTPError (str_int (status_code r) @ '' Server Error: '' @ reason r
                          @ '' for url: '' @ resp_url r) r)
      else Inr ())"

section \<open>common/api\_client.py\<close>

record client =
  base_url :: string
  session_headers :: session
  user_agent :: "string option"
  username :: "string option"
  password :: "string option"
  auth_token :: "string option"

text \<open>\<open>APIClient.__init__\<close>; \<open>new_session\<close> is the header set of a fresh
  \<open>requests.Session()\<close>. A plain \<open>APIClient\<close> is a client without user agent and
  credentials.\<close>

definition APIClient_init :: "session \<Rightarrow> string \<Rightarrow> client" where
  "APIClient_init new_session b =
     \<lparr>base_url = rstrip CHR ''/'' b, session_headers = new_session, user_agent = None,
      username = None, password = None, auth_token = None\<rparr>"

definition APIClient_get_default_headers :: "(string, string) dict" where
  "APIClient_get_default_headers =
     [(''Content-Type'', ''application/json''),
      (''Accept'', ''application/json''),
      (''User-Agent'', ''BoomPahConnect/0.1.0'')]"

text \<open>\<open>WordPressClient._get_default_headers\<close>, the override that \<open>_request\<close>
  reaches through \<open>self\<close>; without a user agent it returns the base class's headers.\<close>

definition get_default_headers :: "client \<Rightarrow> (string, string) dict" where
  "get_default_headers self =
     (let headers = APIClient_get_default_headers;
          headers = dict_set headers ''Content-Type'' ''application/json''
      in case user_agent self of
           None \<Rightarrow> headers
         | Some ua \<Rightarrow> if ua \<noteq> [] then dict_set headers ''User-Agent'' ua else headers)"

text \<open>The URL of line 53: base URL, a slash, the endpoint without its leading
  slashes.\<close>

definition request_url :: "client \<Rightarrow> string \<Rightarrow> string" where
  "request_url self endpoint = base_url self @ ''/'' @ lstrip CHR ''/'' endpoint"

text \<open>The headers of lines 55 to 57: the defaults, updated with the caller's headers
  when these are given and not empty.\<close>

definition effective_headers :: "client \<Rightarrow> (string, string) dict option \<Rightarrow> (string, string) dict" where
  "effective_headers self hdrs =
     (let default_headers = get_default_headers self
      in case hdrs of
           None \<Rightarrow> default_headers
         | Some h \<Rightarrow> if h \<noteq> [] then dict_update default_headers h else default_headers)"

text \<open>
  \<open>APIClient._request\<close>. The request is dispatched outside the \<open>try\<close> block, so
  an exception of the transport propagates as it is. Inside it, an \<open>HTTPError\<close> of
  \<open>raise_for_status\<close> is logged with the detail read from the response and raised
  again by the bare \<open>raise\<close>; the \<open>ValueError\<close> of \<open>response.json()\<close> turns into
  the empty dict.
\<close>

definition prepared_request ::
  "client \<Rightarrow> string \<Rightarrow> string \<Rightarrow> (string, json) dict option \<Rightarrow> string option \<Rightarrow>
   json option \<Rightarrow> (string, string) dict option \<Rightarrow> request" where
  "prepared_request self meth endpoint ps dat js hdrs =
     \<lparr>http_method = meth, url = request_url self endpoint, params = ps, data = dat,
      json_body = js, headers = effective_headers self hdrs\<rparr>"

definition APIClient_request ::
  "'w platform \<Rightarrow> client \<Rightarrow> string \<Rightarrow> string \<Rightarrow>
   (string, json) dict option \<Rightarrow> string option \<Rightarrow> json option \<Rightarrow>
   (string, string) dict option \<Rightarrow> 'w io \<Rightarrow> (error + json) \<times> 'w io" where
  "APIClient_request plat self meth endpoint ps dat js hdrs st =
     (let req = prepared_request self meth endpoint ps dat js hdrs;
          st1 = st\<lparr>log := log st @ [Debug (''Making '' @ meth @ '' request to '' @ url req)]\<rparr>;
          (r, w) = session_request plat (world st1) (session_headers self) req;
          st2 = st1\<lparr>world := w, sent := sent st1 @ [req]\<rparr>
      in case r of
           Inl e \<Rightarrow> (Inl e, st2)
         | Inr resp \<Rightarrow>
             (case raise_for_status resp of
                Inl e \<Rightarrow>
                  (let error_detail =
                         (case json_loads plat (resp_text resp) of
                            Some j \<Rightarrow> j
                          | None \<Rightarrow> JStr (resp_text resp))
                   in (Inl e, st2\<lparr>log := log st2 @ [Error (''HTTP error: '' @ error_str e),
                                                       ErrorDetails error_detail]\<rparr>))
              | Inr _ \<Rightarrow>
                  (case json_loads plat (resp_text resp) of
                     Some j \<Rightarrow> (Inr j, st2)
                   | None \<Rightarrow> (Inr (JObject []), st2))))"

definition APIClient_get ::
  "'w platform \<Rightarrow> client \<Rightarrow> string \<Rightarrow> (string, json) dict option \<Rightarrow> 'w io \<Rightarrow>
   (error + json) \<times> 'w io" where
  "APIClient_get plat self endpoint ps st =
     APIClient_request plat self ''GET'' endpoint ps None None None st"

definition APIClient_post ::
  "'w platform \<Rightarrow> client \<Rightarrow> string \<Rightarrow> string option \<Rightarrow> json option \<Rightarrow>
   (string, string) dict option \<Rightarrow> 'w io \<Rightarrow> (error + json) \<times> 'w io" where
  "APIClient_post plat self endpoint dat js hdrs st =
     APIClient_request plat self ''POST'' endpoint None dat js hdrs st"

section \<open>wordpress/client.py\<close>

text \<open>Truth values of optional arguments: \<open>None\<close>, the empty string, the empty list
  and zero are false.\<close>

definition truthy_str :: "string option \<Rightarrow> bool" where
  "truthy_str x = (case x of None \<Rightarrow> False | Some s \<Rightarrow> s \<noteq> [])"

definition truthy_list :: "int list option \<Rightarrow> bool" where
  "truthy_list x = (case x of None \<Rightarrow> False | Some l \<Rightarrow> l \<noteq> [])"

definition truthy_int :: "int option \<Rightarrow> bool" where
  "truthy_int x = (case x of None \<Rightarrow> False | Some n \<Rightarrow> n \<noteq> 0)"

text \<open>\<open>base64.b64encode\<close>: the standard alphabet, three bytes to four characters,
  padded with \<open>=\<close>.\<close>

definition b64_char :: "nat \<Rightarrow> char" where
  "b64_char n =
     (if n < 26 then char_of (65 + n)
      else if n < 52 then char_of (97 + (n - 26))
      else if n < 62 then char_of (48 + (n - 52))
      else if n = 62 then CHR ''+'' else CHR ''/'')"

fun b64encode :: "string \<Rightarrow> string" where
  "b64encode [] = []"
| "b64encode [a] =
     (let x = (of_char a :: nat)
      in [b64_char (x div 4), b64_char ((x mod 4) * 16), CHR ''='', CHR ''=''])"
| "b64encode [a, b] =
     (let x = (of_char a :: nat); y = (of_char b :: nat)
      in [b64_char (x div 4), b64_char ((x mod 4) * 16 + y div 16),
          b64_char ((y mod 16) * 4), CHR ''=''])"
| "b64encode (a # b # c # rest) =
     (let x = (of_char a :: nat); y = (of_char b :: nat); z = (of_char c :: nat)
      in [b64_char (x div 4), b64_char ((x mod 4) * 16 + y div 16),
          b64_char ((y mod 16) * 4 + z div 64), b64_char (z mod 64)] @ b64encode rest)"

text \<open>\<open>WordPressClient.__init__\<close>. It has no \<open>raise\<close>: with neither a truthy
  username and password nor a truthy token the session is left as it is.\<close>

definition WordPressClient_init ::
  "session \<Rightarrow> string \<Rightarrow> string option \<Rightarrow> string option \<Rightarrow> string option \<Rightarrow>
   string option \<Rightarrow> client" where
  "WordPressClient_init new_session b usr pwd tok ua =
     (let self = (APIClient_init new_session b)
                   \<lparr>user_agent := ua, username := usr, password := pwd, auth_token := tok\<rparr>;
          token_branch =
            (case tok of
               None \<Rightarrow> self
             | Some t \<Rightarrow>
                 if t \<noteq> [] then
                   self\<lparr>session_headers :=
                          dict_update (session_headers self) [(''Authorization'', ''Bearer '' @ t)]\<rparr>
                 else self)
      in case (usr, pwd) of
           (Some u, Some p) \<Rightarrow>
             if u \<noteq> [] \<and> p \<noteq> [] then
               (let auth_string = u @ '':'' @ p;
                    encoded_auth = b64encode auth_string
                in self\<lparr>session_headers :=
                          dict_update (session_headers self)
                            [(''Authorization'', ''Basic '' @ encoded_auth)]\<rparr>)
             else token_branch
         | _ \<Rightarrow> token_branch)"

text \<open>
  The Python idiom \<open>if x: d[k] = ...\<close> on an optional argument, for a string, a list
  of integers and an integer: the key is stored when the argument is truthy, and the
  dict is left alone otherwise.
\<close>

definition set_if_str ::
  "(string, json) dict \<Rightarrow> string \<Rightarrow> string option \<Rightarrow> (string, json) dict" where
  "set_if_str d k x =
     (case x of None \<Rightarrow> d | Some s \<Rightarrow> if s \<noteq> [] then dict_set d k (JStr s) else d)"

definition set_if_list ::
  "(string, json) dict \<Rightarrow> string \<Rightarrow> int list option \<Rightarrow> (string, json) dict" where
  "set_if_list d k x =
     (case x of
        None \<Rightarrow> d
      | Some l \<Rightarrow> if l \<noteq> [] then dict_set d k (JList (map JInt l)) else d)"

definition set_if_int ::
  "(string, json) dict \<Rightarrow> string \<Rightarrow> int option \<Rightarrow> (string, json) dict" where
  "set_if_int d k x =
     (case x of None \<Rightarrow> d | Some n \<Rightarrow> if n \<noteq> 0 then dict_set d k (JInt n) else d)"

text \<open>\<open>if x: d[k] = ",".join(map(str, x))\<close>, the form of the list filters of
  \<open>get_posts\<close>.\<close>

definition set_if_joined ::
  "(string, json) dict \<Rightarrow> string \<Rightarrow> int list option \<Rightarrow> (string, json) dict" where
  "set_if_joined d k x =
     (case x of
        None \<Rightarrow> d
      | Some l \<Rightarrow> if l \<noteq> [] then dict_set d k (JStr (join '','' (map str_int l))) else d)"

text \<open>\<open>get_posts\<close>, lines 92 to 105: the query parameters. The defaults of the
  signature are \<open>limit = 10\<close>, \<open>page = 1\<close>, \<open>status = "publish"\<close> and \<open>None\<close> for
  the three filters.\<close>

definition get_posts_params ::
  "int \<Rightarrow> int \<Rightarrow> string option \<Rightarrow> int list option \<Rightarrow> int list option \<Rightarrow> string \<Rightarrow>
   (string, json) dict" where
  "get_posts_params limit page search categories tags status =
     (let ps = [(''per_page'', JInt limit), (''page'', JInt page), (''status'', JStr status)];
          ps = set_if_str ps ''search'' search;
          ps = set_if_joined ps ''categories'' categories;
          ps = set_if_joined ps ''tags'' tags
      in ps)"

definition get_posts ::
  "'w platform \<Rightarrow> client \<Rightarrow> int \<Rightarrow> int \<Rightarrow> string option \<Rightarrow> int list option \<Rightarrow>
   int list option \<Rightarrow> string \<Rightarrow> 'w io \<Rightarrow> (error + json) \<times> 'w io" where
  "get_posts plat self limit page search categories tags status st =
     APIClient_get plat self ''wp/v2/posts''
       (Some (get_posts_params limit page search categories tags status)) st"

text \<open>\<open>update_post\<close>, lines 193 to 214: the JSON body, one \<open>if\<close> per optional
  argument.\<close>

definition update_post_data ::
  "string option \<Rightarrow> string option \<Rightarrow> string option \<Rightarrow> string option \<Rightarrow>
   int list option \<Rightarrow> int list option \<Rightarrow> int option \<Rightarrow> (string, json) dict" where
  "update_post_data title content status excerpt categories tags featured_media =
     (let d = [];
          d = set_if_str d ''title'' title;
          d = set_if_str d ''content'' content;
          d = set_if_str d ''status'' status;
          d = set_if_str d ''excerpt'' excerpt;
          d = set_if_list d ''categories'' categories;
          d = set_if_list d ''tags'' tags;
          d = set_if_int d ''featured_media'' featured_media
      in d)"

definition update_post ::
  "'w platform \<Rightarrow> client \<Rightarrow> int \<Rightarrow> string option \<Rightarrow> string option \<Rightarrow> string option \<Rightarrow>
   string option \<Rightarrow> int list option \<Rightarrow> int list option \<Rightarrow> int option \<Rightarrow> 'w io \<Rightarrow>
   (error + json) \<times> 'w io" where
  "update_post plat self post_id title content status excerpt categories tags featured_media st =
     APIClient_post plat self (''wp/v2/posts/'' @ str_int post_id) None
       (Some (JObject (update_post_data title content status excerpt categories tags
                         featured_media)))
       None st"

definition get_me :: "'w platform \<Rightarrow> client \<Rightarrow> 'w io \<Rightarrow> (error + json) \<times> 'w io" where
  "get_me plat self st = APIClient_get plat self ''wp/v2/users/me'' None st"

text \<open>\<open>os.path.basename\<close> on a POSIX system: what follows the last slash.\<close>

definition basename :: "string \<Rightarrow> string" where
  "basename p = rev (takeWhile (\<lambda>c. c \<noteq> CHR ''/'') (rev p))"

text \<open>\<open>response['id']\<close> on a decoded JSON value: a dict without the key raises
  \<open>KeyError\<close>, any other value \<open>TypeError\<close>.\<close>

definition subscript :: "json \<Rightarrow> string \<Rightarrow> error + json" where
  "subscript v k =
     (case v of
        JObject d \<Rightarrow> (case dict_get d k of Some x \<Rightarrow> Inr x | None \<Rightarrow> Inl (KeyError k))
      | _ \<Rightarrow> Inl (TypeError ''subscript''))"

text \<open>A value inside an f-string.\<close>

definition format_value :: "'w platform \<Rightarrow> json \<Rightarrow> string" where
  "format_value plat v =
     (case v of
        JNull \<Rightarrow> ''None''
      | JBool b \<Rightarrow> if b then ''True'' else ''False''
      | JInt i \<Rightarrow> str_int i
      | JStr s \<Rightarrow> s
      | _ \<Rightarrow> py_repr plat v)"

text \<open>\<open>upload_media\<close>, lines 291 to 301: the headers of the upload.\<close>

definition upload_headers :: "'w platform \<Rightarrow> string \<Rightarrow> (string, string) dict" where
  "upload_headers plat file_path =
     (let filename = basename file_path;
          mime_type =
            (case fst (guess_type plat file_path) of
               None \<Rightarrow> ''application/octet-stream''
             | Some m \<Rightarrow> if m \<noteq> [] then m else ''application/octet-stream'')
      in [(''Content-Disposition'',
           ''attachment; filename='' @ [CHR 0x22] @ filename @ [CHR 0x22]),
          (''Content-Type'', mime_type)])"

text \<open>Lines 311 to 320: the metadata of the second request.\<close>

definition upload_metadata ::
  "string option \<Rightarrow> string option \<Rightarrow> string option \<Rightarrow> (string, json) dict" where
  "upload_metadata title caption alt_text =
     (let m = [];
          m = set_if_str m ''title'' title;
          m = set_if_str m ''caption'' caption;
          m = set_if_str m ''alt_text'' alt_text
      in m)"

definition upload_media ::
  "'w platform \<Rightarrow> client \<Rightarrow> string \<Rightarrow> string option \<Rightarrow> string option \<Rightarrow> string option \<Rightarrow>
   'w io \<Rightarrow> (error + json) \<times> 'w io" where
  "upload_media plat self file_path title caption alt_text st =
     (let hdrs = upload_headers plat file_path
      in case read_bytes plat file_path of
           None \<Rightarrow> (Inl (OSError file_path), st)
         | Some media_data \<Rightarrow>
             (case APIClient_post plat self ''wp/v2/media'' (Some media_data) None (Some hdrs) st of
                (Inl e, st1) \<Rightarrow> (Inl e, st1)
              | (Inr resp, st1) \<Rightarrow>
                  if truthy_str title \<or> truthy_str caption \<or> truthy_str alt_text then
                    (case subscript resp ''id'' of
                       Inl e \<Rightarrow> (Inl e, st1)
                     | Inr media_id \<Rightarrow>
                         (let metadata = upload_metadata title caption alt_text
                          in if metadata \<noteq> [] then
                               APIClient_post plat self
                                 (''wp/v2/media/'' @ format_value plat media_id) None
                                 (Some (JObject metadata)) None st1
                             else (Inr resp, st1)))
                  else (Inr resp, st1)))"

section \<open>templates/wordpress\_project\<close>

text \<open>
  \<open>config.py\<close>: the module reads four environment variables and validates them when
  it is imported. \<open>getenv\<close> is \<open>os.getenv\<close> after \<open>load_dotenv()\<close>.
\<close>

record config =
  WP_BASE_URL :: "string option"
  WP_USERNAME :: "string option"
  WP_PASSWORD :: "string option"
  WP_AUTH_TOKEN :: "string option"

definition config_module :: "(string \<Rightarrow> string option) \<Rightarrow> error + config" where
  "config_module getenv =
     (let cfg = \<lparr>WP_BASE_URL = getenv ''WP_BASE_URL'', WP_USERNAME = getenv ''WP_USERNAME'',
                 WP_PASSWORD = getenv ''WP_PASSWORD'', WP_AUTH_TOKEN = getenv ''WP_AUTH_TOKEN''\<rparr>
      in if \<not> truthy_str (WP_BASE_URL cfg) then
           Inl (ValueError ''WP_BASE_URL environment variable is required'')
         else if \<not> (truthy_str (WP_USERNAME cfg) \<and> truthy_str (WP_PASSWORD cfg))
                 \<and> \<not> truthy_str (WP_AUTH_TOKEN cfg) then
           Inl (ValueError (''Either WP_USERNAME and WP_PASSWORD or WP_AUTH_TOKEN ''
                            @ ''environment variables are required''))
         else Inr cfg)"

text \<open>
  \<open>wp_client.py\<close>: importing the module imports \<open>config\<close> first, then builds the
  singleton, whose \<open>_initialize\<close> constructs the client and probes the connection
  with \<open>get_me\<close>. A base URL of \<open>None\<close>, which \<open>config\<close> excludes, would end in
  the \<open>AttributeError\<close> of \<open>base_url.rstrip\<close>.
\<close>

definition WordPressClientWrapper_initialize ::
  "'w platform \<Rightarrow> session \<Rightarrow> config \<Rightarrow> 'w io \<Rightarrow> (error + client) \<times> 'w io" where
  "WordPressClientWrapper_initialize plat new_session cfg st =
     (case WP_BASE_URL cfg of
        None \<Rightarrow>
          (Inl (AttributeError ''rstrip''),
           st\<lparr>log := log st @ [Info ''Initializing WordPress client with base URL: None'']\<rparr>)
      | Some b \<Rightarrow>
          (let st1 = st\<lparr>log := log st
                        @ [Info (''Initializing WordPress client with base URL: '' @ b)]\<rparr>;
               custom_user_agent = ''WordPress-Project'' @ ''/'' @ ''1.0.0'';
               c = WordPressClient_init new_session b (WP_USERNAME cfg) (WP_PASSWORD cfg)
                     (WP_AUTH_TOKEN cfg) (Some custom_user_agent)
           in case get_me plat c st1 of
                (Inl e, st2) \<Rightarrow>
                  (Inl e, st2\<lparr>log := log st2
                            @ [Error (''Failed to connect to WordPress API: '' @ error_str e)]\<rparr>)
              | (Inr _, st2) \<Rightarrow>
                  (Inr c, st2\<lparr>log := log st2
                            @ [Info ''Successfully connected to WordPress API'']\<rparr>)))"

definition wp_client_module ::
  "'w platform \<Rightarrow> session \<Rightarrow> (string \<Rightarrow> string option) \<Rightarrow> 'w io \<Rightarrow>
   (error + client) \<times> 'w io" where
  "wp_client_module plat new_session getenv st =
     (case config_module getenv of
        Inl e \<Rightarrow> (Inl e, st)
      | Inr cfg \<Rightarrow> WordPressClientWrapper_initialize plat new_session cfg st)"

section \<open>A scripted platform for the examples\<close>

text \<open>
  The examples below run the client against a transport that answers the n-th call with
  the n-th response of a script, a decoder that knows the three bodies the examples
  use, and a file system with two files.
\<close>

definition scripted :: "response list \<Rightarrow> nat transport" where
  "scripted rs w s req =
     (if w < length rs then (Inr (rs ! w), Suc w)
      else (Inl (RequestException ''connection refused''), Suc w))"

definition body_error :: string where
  "body_error = ''{'' @ [CHR 0x22] @ ''code'' @ [CHR 0x22] @ '': '' @ [CHR 0x22]
                 @ ''rest_post_invalid_id'' @ [CHR 0x22] @ ''}''"

definition body_media :: string where
  "body_media = ''{'' @ [CHR 0x22] @ ''id'' @ [CHR 0x22] @ '': 42}''"

definition body_titled :: string where
  "body_titled = ''{'' @ [CHR 0x22] @ ''id'' @ [CHR 0x22] @ '': 42, '' @ [CHR 0x22]
                  @ ''title'' @ [CHR 0x22] @ '': '' @ [CHR 0x22] @ ''Logo'' @ [CHR 0x22] @ ''}''"

definition example_loads :: "string \<Rightarrow> json option" where
  "example_loads s =
     (if s = body_error then Some (JObject [(''code'', JStr ''rest_post_invalid_id'')])
      else if s = body_media then Some (JObject [(''id'', JInt 42)])
      else if s = body_titled then Some (JObject [(''id'', JInt 42), (''title'', JStr ''Logo'')])
      else None)"

definition example_platform :: "response list \<Rightarrow> nat platform" where
  "example_platform rs =
     \<lparr>json_loads = example_loads,
      session_request = scripted rs,
      read_bytes = (\<lambda>p. if p = ''/tmp/logo.png'' \<or> p = ''/tmp/notes.xyz''
                         then Some ''bytes'' else None),
      guess_type = (\<lambda>p. if p = ''/tmp/logo.png'' then (Some ''image/png'', None)
                         else (None, None)),
      py_repr = (\<lambda>v. [])\<rparr>"

definition io0 :: "nat io" where
  "io0 = \<lparr>world = 0, sent = [], log = []\<rparr>"

definition ok_response :: "string \<Rightarrow> string \<Rightarrow> response" where
  "ok_response u b = \<lparr>status_code = 200, reason = ''OK'', resp_url = u, resp_text = b\<rparr>"



definition example_client :: client where
  "example_client =
     WordPressClient_init [] ''https://example.com/wp-json'' None None (Some ''tok'') None"

definition upload_script :: "response list" where
  "upload_script =
     [ok_response ''https://example.com/wp-json/wp/v2/media'' body_media,
      ok_response ''https://example.com/wp-json/wp/v2/media/42'' body_titled]"

section \<open>The library functions on known values\<close>

lemma b64encode_rfc4648:
  "b64encode [] = []"
  "b64encode ''f'' = ''Zg==''"
  "b64encode ''fo'' = ''Zm8=''"
  "b64encode ''foo'' = ''Zm9v''"
  "b64encode ''foob'' = ''Zm9vYg==''"
  "b64encode ''fooba'' = ''Zm9vYmE=''"
  "b64encode ''foobar'' = ''Zm9vYmFy''"
  by code_simp+

lemma str_int_examples:
  "str_int 0 = ''0''"
  "str_int 10 = ''10''"
  "str_int 2024 = ''2024''"
  "str_int (- 17) = ''-17''"
  by code_simp+

lemma join_examples:
  "join '','' [] = []"
  "join '','' [''7''] = ''7''"
  "join '','' [''1'', ''23'', ''456''] = ''1,23,456''"
  by simp_all

lemma basename_slash_free: "CHR ''/'' \<notin> set (basename p)"
  by (auto simp: basename_def dest: set_takeWhileD)

lemma basename_suffix: "\<exists>dir. p = dir @ basename p \<and> (dir = [] \<or> endswith dir CHR ''/'')"
proof -
  have "rev p = takeWhile (\<lambda>c. c \<noteq> CHR ''/'') (rev p) @ dropWhile (\<lambda>c. c \<noteq> CHR ''/'') (rev p)"
    by simp
  then have "p = rev (dropWhile (\<lambda>c. c \<noteq> CHR ''/'') (rev p)) @ basename p"
    unfolding basename_def by (metis rev_append rev_rev_ident)
  moreover have "rev (dropWhile (\<lambda>c. c \<noteq> CHR ''/'') (rev p)) = []
      \<or> endswith (rev (dropWhile (\<lambda>c. c \<noteq> CHR ''/'') (rev p))) CHR ''/''"
    by (auto simp: endswith_def dropWhile_eq_Cons_conv split: list.splits)
  ultimately show ?thesis by blast
qed

section \<open>URL construction\<close>

lemma rstrip_not_endswith: "\<not> endswith (rstrip c s) c"
  by (auto simp: endswith_def rstrip_def dropWhile_eq_Cons_conv split: list.splits)

lemma lstrip_not_startswith: "\<not> startswith (lstrip c s) c"
  by (auto simp: startswith_def lstrip_def dropWhile_eq_Cons_conv split: list.splits)

lemma rstrip_decomp: "\<exists>n. s = rstrip c s @ replicate n c"
proof -
  have "rev s = takeWhile (\<lambda>x. x = c) (rev s) @ dropWhile (\<lambda>x. x = c) (rev s)"
    by simp
  moreover have "takeWhile (\<lambda>x. x = c) (rev s)
      = replicate (length (takeWhile (\<lambda>x. x = c) (rev s))) c"
    by (rule replicate_length_same [symmetric]) (auto dest: set_takeWhileD)
  ultimately have "rev s = replicate (length (takeWhile (\<lambda>x. x = c) (rev s))) c
      @ dropWhile (\<lambda>x. x = c) (rev s)"
    by simp
  then have "s = rev (replicate (length (takeWhile (\<lambda>x. x = c) (rev s))) c
      @ dropWhile (\<lambda>x. x = c) (rev s))"
    by (metis rev_rev_ident)
  then show ?thesis
    unfolding rstrip_def by (metis rev_append rev_replicate)
qed

lemma lstrip_decomp: "\<exists>n. s = replicate n c @ lstrip c s"
proof -
  have "takeWhile (\<lambda>x. x = c) s = replicate (length (takeWhile (\<lambda>x. x = c) s)) c"
    by (rule replicate_length_same [symmetric]) (auto dest: set_takeWhileD)
  then have "s = replicate (length (takeWhile (\<lambda>x. x = c) s)) c @ dropWhile (\<lambda>x. x = c) s"
    by (metis takeWhile_dropWhile_id)
  then show ?thesis unfolding lstrip_def by blast
qed

lemma request_sent:
  "sent (snd (APIClient_request plat self meth endpoint ps dat js hdrs st))
     = sent st @ [prepared_request self meth endpoint ps dat js hdrs]"
  by (simp add: APIClient_request_def Let_def split: prod.splits sum.splits option.splits)

lemma base_url_init: "base_url (APIClient_init ns b) = rstrip CHR ''/'' b"
  by (simp add: APIClient_init_def)

text \<open>
  Claim C4. For every base URL \<open>b\<close> and endpoint \<open>e\<close>, whatever slashes end the
  one and start the other, the request that \<open>_request\<close> dispatches goes to the base
  URL without its trailing slashes, one slash, and the endpoint without its leading
  slashes: the left part does not end with a slash, the right part does not start with
  one, and both differ from \<open>b\<close> and \<open>e\<close> by slashes only.
\<close>

theorem url_single_slash:
  "url (last (sent (snd (APIClient_request plat (APIClient_init ns b) meth e ps dat js hdrs st))))
     = rstrip CHR ''/'' b @ ''/'' @ lstrip CHR ''/'' e
   \<and> \<not> endswith (rstrip CHR ''/'' b) CHR ''/''
   \<and> \<not> startswith (lstrip CHR ''/'' e) CHR ''/''
   \<and> (\<exists>n. b = rstrip CHR ''/'' b @ replicate n CHR ''/'')
   \<and> (\<exists>n. e = replicate n CHR ''/'' @ lstrip CHR ''/'' e)"
  using rstrip_decomp [of b "CHR ''/''"] lstrip_decomp [of e "CHR ''/''"]
  by (simp add: request_sent prepared_request_def request_url_def base_url_init
      rstrip_not_endswith lstrip_not_startswith)

text \<open>Two trailing slashes on the base URL and two leading ones on the endpoint.\<close>

theorem url_single_slash_witness:
  "url (last (sent (snd (APIClient_request (example_platform [])
      (APIClient_init [] ''https://example.com/wp-json//'')
      ''GET'' ''//wp/v2/posts'' None None None None io0))))
     = ''https://example.com/wp-json/wp/v2/posts''"
  using url_single_slash [of "example_platform []" "[]" "''https://example.com/wp-json//''"
      "''GET''" "''//wp/v2/posts''" None None None None io0]
  by (simp add: rstrip_def lstrip_def)

section \<open>Dictionaries\<close>

lemma map_of_dict_set: "map_of (dict_set d k v) = (map_of d)(k \<mapsto> v)"
  by (induction d k v rule: dict_set.induct) auto

lemma keys_dict_set: "set (dict_keys (dict_set d k v)) = insert k (set (dict_keys d))"
  by (induction d k v rule: dict_set.induct) (auto simp: dict_keys_def)

lemma distinct_dict_set: "distinct (dict_keys d) \<Longrightarrow> distinct (dict_keys (dict_set d k v))"
proof (induction d k v rule: dict_set.induct)
  case (1 k v)
  then show ?case by (simp add: dict_keys_def)
next
  case (2 k' v' d k v)
  then show ?case
    using keys_dict_set [of d k v] by (auto simp: dict_keys_def)
qed

lemma map_of_fold_dict_set:
  "map_of (fold (\<lambda>(k, v) acc. dict_set acc k v) other d) = map_of d ++ map_of (rev other)"
proof (induction other arbitrary: d)
  case Nil
  then show ?case by simp
next
  case (Cons x xs)
  obtain k v where x: "x = (k, v)" by (cases x)
  have "map_of (fold (\<lambda>(k, v) acc. dict_set acc k v) (x # xs) d)
      = map_of (dict_set d k v) ++ map_of (rev xs)"
    using Cons.IH [of "dict_set d k v"] by (simp add: x)
  also have "\<dots> = map_of d ++ ([k \<mapsto> v] ++ map_of (rev xs))"
    by (simp add: map_of_dict_set map_add_def fun_eq_iff split: option.splits)
  finally show ?case by (simp add: x)
qed

lemma map_of_rev_distinct: "distinct (map fst xs) \<Longrightarrow> map_of (rev xs) = map_of xs"
proof (induction xs)
  case Nil
  then show ?case by simp
next
  case (Cons x xs)
  obtain k v where x: "x = (k, v)" by (cases x)
  from Cons.prems have "map_of xs k = None"
    by (simp add: x map_of_eq_None_iff)
  then show ?case
    using Cons by (auto simp: x map_add_def fun_eq_iff split: option.splits)
qed

lemma dict_get_update:
  "distinct (dict_keys other) \<Longrightarrow>
   dict_get (dict_update d other) k
     = (case dict_get other k of Some v \<Rightarrow> Some v | None \<Rightarrow> dict_get d k)"
  by (simp add: dict_get_def dict_update_def dict_keys_def map_of_fold_dict_set
      map_of_rev_distinct map_add_def split: option.splits)

lemma default_header_keys:
  "dict_keys (get_default_headers self) = [''Content-Type'', ''Accept'', ''User-Agent'']"
  by (simp add: get_default_headers_def APIClient_get_default_headers_def dict_keys_def Let_def
      split: option.splits)

section \<open>Headers\<close>

text \<open>
  Claim C5. For every set of header overrides (a dict, so its keys are distinct), given
  or not, the headers of the request that \<open>_request\<close> dispatches hold, under every
  key, the override when there is one and the default otherwise. The defaults are
  exactly Content-Type, Accept and User-Agent, so each default key that is not
  overridden keeps its default value.
\<close>

theorem effective_headers_override:
  assumes "distinct (dict_keys (case hdrs of None \<Rightarrow> [] | Some h \<Rightarrow> h))"
  shows "dict_get (headers (last (sent (snd
            (APIClient_request plat self meth e ps dat js hdrs st))))) k
           = (case dict_get (case hdrs of None \<Rightarrow> [] | Some h \<Rightarrow> h) k of
                Some v \<Rightarrow> Some v
              | None \<Rightarrow> dict_get (get_default_headers self) k)
         \<and> dict_keys (get_default_headers self) = [''Content-Type'', ''Accept'', ''User-Agent'']
         \<and> dict_get (get_default_headers self) ''Content-Type'' = Some ''application/json''
         \<and> dict_get (get_default_headers self) ''Accept'' = Some ''application/json''
         \<and> dict_get (get_default_headers self) ''User-Agent''
             = Some (case user_agent self of
                       None \<Rightarrow> ''BoomPahConnect/0.1.0''
                     | Some ua \<Rightarrow> if ua \<noteq> [] then ua else ''BoomPahConnect/0.1.0'')"
proof -
  have 1: "dict_get (effective_headers self hdrs) k
           = (case dict_get (case hdrs of None \<Rightarrow> [] | Some h \<Rightarrow> h) k of
                Some v \<Rightarrow> Some v
              | None \<Rightarrow> dict_get (get_default_headers self) k)"
  proof (cases hdrs)
    case None
    then show ?thesis by (simp add: effective_headers_def dict_get_def)
  next
    case (Some h)
    with assms have "distinct (dict_keys h)" by simp
    then show ?thesis
      using Some by (cases "h = []") (simp_all add: effective_headers_def dict_get_update, simp add: dict_get_def)
  qed
  have 2: "dict_get (get_default_headers self) ''Content-Type'' = Some ''application/json''"
    "dict_get (get_default_headers self) ''Accept'' = Some ''application/json''"
    "dict_get (get_default_headers self) ''User-Agent''
             = Some (case user_agent self of
                       None \<Rightarrow> ''BoomPahConnect/0.1.0''
                     | Some ua \<Rightarrow> if ua \<noteq> [] then ua else ''BoomPahConnect/0.1.0'')"
    by (simp_all add: get_default_headers_def APIClient_get_default_headers_def dict_get_def
        Let_def split: option.splits)
  show ?thesis
    using 1 2 by (simp add: request_sent prepared_request_def default_header_keys)
qed

text \<open>A media upload overriding Content-Type and adding a header of its own.\<close>

theorem effective_headers_override_witness:
  "distinct (dict_keys [(''Content-Type'', ''image/png''), (''X-Trace'', ''1'')])
   \<and> headers (last (sent (snd (APIClient_request (example_platform [])
        (APIClient_init [] ''https://example.com/wp-json'') ''POST'' ''wp/v2/media'' None None None
        (Some [(''Content-Type'', ''image/png''), (''X-Trace'', ''1'')]) io0))))
      = [(''Content-Type'', ''image/png''), (''Accept'', ''application/json''),
         (''User-Agent'', ''BoomPahConnect/0.1.0''), (''X-Trace'', ''1'')]
   \<and> dict_get (headers (last (sent (snd (APIClient_request (example_platform [])
        (APIClient_init [] ''https://example.com/wp-json'') ''POST'' ''wp/v2/media'' None None None
        (Some [(''Content-Type'', ''image/png''), (''X-Trace'', ''1'')]) io0))))) ''Accept''
      = Some ''application/json''"
  using effective_headers_override [of "Some [(''Content-Type'', ''image/png''), (''X-Trace'', ''1'')]"
      "example_platform []" "APIClient_init [] ''https://example.com/wp-json''" "''POST''"
      "''wp/v2/media''" None None None io0 "''Accept''"]
  by (simp add: dict_keys_def dict_get_def request_sent prepared_request_def effective_headers_def
      get_default_headers_def APIClient_get_default_headers_def APIClient_init_def dict_update_def)

section \<open>Responses\<close>

text \<open>
  Claim C3. When the transport answers with a 2xx status, \<open>_request\<close> raises nothing:
  it returns the decoded JSON value when the body decodes, and the empty dict when the
  decoder rejects the body, as it does for an empty one.
\<close>

theorem request_success_lenient:
  assumes "session_request plat (world st) (session_headers self)
             (prepared_request self meth e ps dat js hdrs) = (Inr resp, w)"
    and "200 \<le> status_code resp" and "status_code resp < 300"
  shows "fst (APIClient_request plat self meth e ps dat js hdrs st)
           = Inr (case json_loads plat (resp_text resp) of Some j \<Rightarrow> j | None \<Rightarrow> JObject [])"
  using assms
  by (simp add: APIClient_request_def Let_def raise_for_status_def split: option.splits)


text \<open>A 200 response with an empty body, as a DELETE endpoint may send.\<close>

theorem request_success_lenient_witness:
  "fst (APIClient_request (example_platform [ok_response ''https://example.com/wp-json/wp/v2/posts/7'' []])
      (APIClient_init [] ''https://example.com/wp-json'') ''DELETE'' ''wp/v2/posts/7'' None None None
      None io0) = Inr (JObject [])"
proof -
  have "session_request (example_platform [ok_response ''https://example.com/wp-json/wp/v2/posts/7'' []])
          (world io0) (session_headers (APIClient_init [] ''https://example.com/wp-json''))
          (prepared_request (APIClient_init [] ''https://example.com/wp-json'') ''DELETE''
             ''wp/v2/posts/7'' None None None None)
        = (Inr (ok_response ''https://example.com/wp-json/wp/v2/posts/7'' []), Suc 0)"
    by (simp add: example_platform_def scripted_def io0_def)
  from request_success_lenient [OF this] show ?thesis
    by (simp add: ok_response_def example_platform_def example_loads_def body_error_def
        body_media_def body_titled_def)
qed





section \<open>Construction and authentication\<close>

lemma dict_update_single: "dict_update d [(k, v)] = dict_set d k v"
  by (simp add: dict_update_def)

lemma dict_get_set_same: "dict_get (dict_set d k v) k = Some v"
  by (simp add: dict_get_def map_of_dict_set)

lemma distinct_count_le_one: "distinct xs \<Longrightarrow> count_list xs x \<le> 1"
  by (induction xs) auto

lemma init_basic:
  "u \<noteq> [] \<Longrightarrow> p \<noteq> [] \<Longrightarrow>
   session_headers (WordPressClient_init ns b (Some u) (Some p) tok ua)
     = dict_set ns ''Authorization'' (''Basic '' @ b64encode (u @ '':'' @ p))"
  by (simp add: WordPressClient_init_def APIClient_init_def Let_def dict_update_single)

lemma init_bearer:
  "\<not> (truthy_str usr \<and> truthy_str pwd) \<Longrightarrow> t \<noteq> [] \<Longrightarrow>
   session_headers (WordPressClient_init ns b usr pwd (Some t) ua)
     = dict_set ns ''Authorization'' (''Bearer '' @ t)"
  by (auto simp: WordPressClient_init_def APIClient_init_def Let_def dict_update_single
      truthy_str_def split: option.splits)

lemma init_no_auth:
  "\<not> (truthy_str usr \<and> truthy_str pwd) \<Longrightarrow> \<not> truthy_str tok \<Longrightarrow>
   session_headers (WordPressClient_init ns b usr pwd tok ua) = ns"
  by (auto simp: WordPressClient_init_def APIClient_init_def Let_def dict_update_single
      truthy_str_def split: option.splits)

lemma init_cases:
  "session_headers (WordPressClient_init ns b usr pwd tok ua) = ns
   \<or> (\<exists>v. session_headers (WordPressClient_init ns b usr pwd tok ua)
            = dict_set ns ''Authorization'' v)"
  by (auto simp: WordPressClient_init_def APIClient_init_def Let_def dict_update_single
      split: option.splits)

lemma init_distinct:
  "distinct (dict_keys ns) \<Longrightarrow>
   distinct (dict_keys (session_headers (WordPressClient_init ns b usr pwd tok ua)))"
  using init_cases [of ns b usr pwd tok ua] by (auto simp: distinct_dict_set)

text \<open>
  Claim C8, as amended. At construction, a non-empty username together with a non-empty
  password sets the session's Authorization header to \<open>Basic\<close> followed by the base64
  encoding of \<open>username:password\<close>, whatever the token; otherwise a non-empty token
  sets it to \<open>Bearer\<close> followed by the token. The session never holds more than one
  Authorization header. No method of the client returns or changes the client, so the
  header stays as the constructor set it.
\<close>

theorem auth_header_precedence:
  "(u \<noteq> [] \<and> p \<noteq> [] \<longrightarrow>
      dict_get (session_headers (WordPressClient_init ns b (Some u) (Some p) tok ua))
        ''Authorization'' = Some (''Basic '' @ b64encode (u @ '':'' @ p)))
   \<and> (\<not> (truthy_str usr \<and> truthy_str pwd) \<and> t \<noteq> [] \<longrightarrow>
      dict_get (session_headers (WordPressClient_init ns b usr pwd (Some t) ua))
        ''Authorization'' = Some (''Bearer '' @ t))
   \<and> (distinct (dict_keys ns) \<longrightarrow>
      count_list (dict_keys (session_headers (WordPressClient_init ns b usr pwd tok ua)))
        ''Authorization'' \<le> 1)"
proof (intro conjI impI)
  assume "u \<noteq> [] \<and> p \<noteq> []"
  then show "dict_get (session_headers (WordPressClient_init ns b (Some u) (Some p) tok ua))
        ''Authorization'' = Some (''Basic '' @ b64encode (u @ '':'' @ p))"
    by (simp add: init_basic dict_get_set_same)
next
  assume "\<not> (truthy_str usr \<and> truthy_str pwd) \<and> t \<noteq> []"
  then show "dict_get (session_headers (WordPressClient_init ns b usr pwd (Some t) ua))
        ''Authorization'' = Some (''Bearer '' @ t)"
    using init_bearer [of usr pwd t ns b ua] by (simp add: dict_get_set_same)
next
  assume "distinct (dict_keys ns)"
  then have "distinct (dict_keys (session_headers (WordPressClient_init ns b usr pwd tok ua)))"
    by (rule init_distinct)
  then show "count_list (dict_keys (session_headers (WordPressClient_init ns b usr pwd tok ua)))
        ''Authorization'' \<le> 1"
    by (rule distinct_count_le_one)
qed

text \<open>Both schemes supplied; then the token alone.\<close>

lemma b64_user_pass: "b64encode ''user:pass'' = ''dXNlcjpwYXNz''" by code_simp

theorem auth_header_precedence_witness:
  "dict_get (session_headers (WordPressClient_init [] ''https://example.com/wp-json''
      (Some ''user'') (Some ''pass'') (Some ''tok'') None)) ''Authorization''
     = Some ''Basic dXNlcjpwYXNz''
   \<and> dict_get (session_headers (WordPressClient_init [] ''https://example.com/wp-json''
      None None (Some ''tok'') None)) ''Authorization''
     = Some ''Bearer tok''
   \<and> count_list (dict_keys (session_headers (WordPressClient_init [] ''https://example.com/wp-json''
      None None (Some ''tok'') None))) ''Authorization'' \<le> 1"
  using auth_header_precedence [of "''user''" "''pass''" "[]" "''https://example.com/wp-json''"
      "Some ''tok''" None None None "''tok''"]
  by (simp add: b64_user_pass truthy_str_def dict_keys_def del: b64encode.simps)

text \<open>
  Claim C8 as stated fails when the pair is supplied with an empty password next to a
  token: the pair is not truthy, and the header is the Bearer one.
\<close>

theorem auth_header_precedence_counterexample:
  "dict_get (session_headers (WordPressClient_init [] ''https://example.com/wp-json''
      (Some ''admin'') (Some []) (Some ''tok'') None)) ''Authorization''
     = Some ''Bearer tok''
   \<and> dict_get (session_headers (WordPressClient_init [] ''https://example.com/wp-json''
      (Some ''admin'') (Some []) (Some ''tok'') None)) ''Authorization''
     \<noteq> Some (''Basic '' @ b64encode (''admin'' @ '':'' @ []))"
  by (simp add: WordPressClient_init_def APIClient_init_def Let_def dict_update_single
      dict_get_def del: b64encode.simps)

text \<open>
  Claim C2, as amended. Constructing a \<open>WordPressClient\<close> with neither a truthy
  username and password nor a truthy token raises nothing and leaves the session
  without a header of its own. The configuration error is raised by the template
  project's \<open>config\<close> module: when the base URL is missing, or both schemes are,
  importing \<open>wp_client\<close> ends with that \<open>ValueError\<close> before a client is built and
  before any request is sent.
\<close>

theorem missing_credentials:
  "(\<not> (truthy_str (getenv ''WP_USERNAME'') \<and> truthy_str (getenv ''WP_PASSWORD''))
      \<and> \<not> truthy_str (getenv ''WP_AUTH_TOKEN'') \<longrightarrow>
      session_headers (WordPressClient_init ns b (getenv ''WP_USERNAME'') (getenv ''WP_PASSWORD'')
         (getenv ''WP_AUTH_TOKEN'') ua) = ns)
   \<and> (\<not> truthy_str (getenv ''WP_BASE_URL'')
        \<or> \<not> (truthy_str (getenv ''WP_USERNAME'') \<and> truthy_str (getenv ''WP_PASSWORD''))
          \<and> \<not> truthy_str (getenv ''WP_AUTH_TOKEN'') \<longrightarrow>
      (\<exists>m. config_module getenv = Inl (ValueError m)
           \<and> wp_client_module plat ns getenv st = (Inl (ValueError m), st)))"
  by (auto simp: init_no_auth wp_client_module_def config_module_def Let_def)

text \<open>An environment with the base URL only.\<close>

theorem missing_credentials_witness:
  "session_headers (WordPressClient_init [] ''https://example.com/wp-json'' None None None None) = []
   \<and> wp_client_module (example_platform [])
        [] (\<lambda>k. if k = ''WP_BASE_URL'' then Some ''https://example.com/wp-json'' else None) io0
     = (Inl (ValueError (''Either WP_USERNAME and WP_PASSWORD or WP_AUTH_TOKEN ''
                            @ ''environment variables are required'')), io0)"
  using missing_credentials [of "\<lambda>k. if k = ''WP_BASE_URL'' then Some ''https://example.com/wp-json'' else None"
       "[]" "''https://example.com/wp-json''" None "example_platform []" io0]
  by (simp add: truthy_str_def config_module_def Let_def)

text \<open>
  Claim C2 as stated fails: the constructor returns a client without credentials, and
  its first method call reaches the network.
\<close>

theorem missing_credentials_counterexample:
  "WordPressClient_init [] ''https://example.com/wp-json'' None None None None
     = \<lparr>base_url = ''https://example.com/wp-json'', session_headers = [], user_agent = None,
        username = None, password = None, auth_token = None\<rparr>
   \<and> sent (snd (get_me (example_platform [])
        (WordPressClient_init [] ''https://example.com/wp-json'' None None None None) io0))
     = [\<lparr>http_method = ''GET'', url = ''https://example.com/wp-json/wp/v2/users/me'',
         params = None, data = None, json_body = None,
         headers = [(''Content-Type'', ''application/json''), (''Accept'', ''application/json''),
                    (''User-Agent'', ''BoomPahConnect/0.1.0'')]\<rparr>]"
  by (simp add: WordPressClient_init_def APIClient_init_def Let_def get_me_def APIClient_get_def
      request_sent prepared_request_def io0_def request_url_def effective_headers_def
      get_default_headers_def APIClient_get_default_headers_def rstrip_def lstrip_def)

section \<open>Posts\<close>

lemma dict_get_set: "dict_get (dict_set d k v) k' = (if k' = k then Some v else dict_get d k')"
  by (simp add: dict_get_def map_of_dict_set)

lemma vals_dict_set: "snd ` set (dict_set d k v) \<subseteq> insert v (snd ` set d)"
  by (induction d k v rule: dict_set.induct) auto

lemma get_set_if_str:
  "dict_get (set_if_str d k x) k'
     = (if k' = k \<and> truthy_str x then map_option JStr x else dict_get d k')"
  by (cases x) (simp_all add: set_if_str_def truthy_str_def dict_get_set)

lemma get_set_if_list:
  "dict_get (set_if_list d k x) k'
     = (if k' = k \<and> truthy_list x then map_option (\<lambda>l. JList (map JInt l)) x
        else dict_get d k')"
  by (cases x) (simp_all add: set_if_list_def truthy_list_def dict_get_set)

lemma get_set_if_int:
  "dict_get (set_if_int d k x) k'
     = (if k' = k \<and> truthy_int x then map_option JInt x else dict_get d k')"
  by (cases x) (simp_all add: set_if_int_def truthy_int_def dict_get_set)

lemma get_set_if_joined:
  "dict_get (set_if_joined d k x) k'
     = (if k' = k \<and> truthy_list x then map_option (\<lambda>l. JStr (join '','' (map str_int l))) x
        else dict_get d k')"
  by (cases x) (simp_all add: set_if_joined_def truthy_list_def dict_get_set)

lemma dict_get_Nil: "dict_get [] k = None"
  by (simp add: dict_get_def)

lemma keys_set_if:
  "set (dict_keys d) \<subseteq> S \<Longrightarrow> k \<in> S \<Longrightarrow> set (dict_keys (set_if_str d k x)) \<subseteq> S"
  "set (dict_keys d) \<subseteq> S \<Longrightarrow> k \<in> S \<Longrightarrow> set (dict_keys (set_if_list d k y)) \<subseteq> S"
  "set (dict_keys d) \<subseteq> S \<Longrightarrow> k \<in> S \<Longrightarrow> set (dict_keys (set_if_int d k z)) \<subseteq> S"
  "set (dict_keys d) \<subseteq> S \<Longrightarrow> k \<in> S \<Longrightarrow> set (dict_keys (set_if_joined d k y)) \<subseteq> S"
  by (auto simp: set_if_str_def set_if_list_def set_if_int_def set_if_joined_def keys_dict_set
      split: option.splits if_splits)

lemma distinct_set_if:
  "distinct (dict_keys d) \<Longrightarrow> distinct (dict_keys (set_if_str d k x))"
  "distinct (dict_keys d) \<Longrightarrow> distinct (dict_keys (set_if_list d k y))"
  "distinct (dict_keys d) \<Longrightarrow> distinct (dict_keys (set_if_int d k z))"
  "distinct (dict_keys d) \<Longrightarrow> distinct (dict_keys (set_if_joined d k y))"
  by (auto simp: set_if_str_def set_if_list_def set_if_int_def set_if_joined_def distinct_dict_set
      split: option.splits)

lemma no_null_set_if:
  "JNull \<notin> snd ` set d \<Longrightarrow> JNull \<notin> snd ` set (set_if_str d k x)"
  "JNull \<notin> snd ` set d \<Longrightarrow> JNull \<notin> snd ` set (set_if_list d k y)"
  "JNull \<notin> snd ` set d \<Longrightarrow> JNull \<notin> snd ` set (set_if_int d k z)"
  using vals_dict_set [of d k]
  by (auto simp: set_if_str_def set_if_list_def set_if_int_def split: option.splits if_splits)

lemma update_post_keys:
  "set (dict_keys (update_post_data title content status excerpt categories tags featured_media))
     \<subseteq> {''title'', ''content'', ''status'', ''excerpt'', ''categories'', ''tags'',
         ''featured_media''}"
  unfolding update_post_data_def Let_def
  by (intro keys_set_if) (simp_all add: dict_keys_def)

lemma update_post_distinct:
  "distinct (dict_keys (update_post_data title content status excerpt categories tags
      featured_media))"
  unfolding update_post_data_def Let_def
  by (intro distinct_set_if) (simp add: dict_keys_def)

lemma update_post_no_null:
  "JNull \<notin> snd ` set (update_post_data title content status excerpt categories tags
      featured_media)"
  unfolding update_post_data_def Let_def
  by (intro no_null_set_if) simp

lemma post_sent:
  "sent (snd (APIClient_post plat self endpoint dat js hdrs st))
     = sent st @ [prepared_request self ''POST'' endpoint None dat js hdrs]"
  by (simp add: APIClient_post_def request_sent)

lemma get_sent:
  "sent (snd (APIClient_get plat self endpoint ps st))
     = sent st @ [prepared_request self ''GET'' endpoint ps None None None]"
  by (simp add: APIClient_get_def request_sent)

text \<open>
  Claim C6, as amended. Every call of \<open>update_post\<close> issues one POST to
  \<open>wp/v2/posts/{id}\<close> whose JSON body holds, among the seven optional fields, exactly
  those whose argument is truthy (a non-empty string, a non-empty list, a non-zero
  integer), each with the value supplied; no other key is sent, and no value is null.
\<close>

theorem update_post_body:
  "sent (snd (update_post plat self post_id title content status excerpt categories tags
       featured_media st))
     = sent st @ [\<lparr>http_method = ''POST'',
                    url = base_url self @ ''/wp/v2/posts/'' @ str_int post_id,
                    params = None, data = None,
                    json_body = Some (JObject (update_post_data title content status excerpt
                                                 categories tags featured_media)),
                    headers = get_default_headers self\<rparr>]
   \<and> dict_get (update_post_data title content status excerpt categories tags featured_media)
        ''title'' = (if truthy_str title then map_option JStr title else None)
   \<and> dict_get (update_post_data title content status excerpt categories tags featured_media)
        ''content'' = (if truthy_str content then map_option JStr content else None)
   \<and> dict_get (update_post_data title content status excerpt categories tags featured_media)
        ''status'' = (if truthy_str status then map_option JStr status else None)
   \<and> dict_get (update_post_data title content status excerpt categories tags featured_media)
        ''excerpt'' = (if truthy_str excerpt then map_option JStr excerpt else None)
   \<and> dict_get (update_post_data title content status excerpt categories tags featured_media)
        ''categories''
        = (if truthy_list categories then map_option (\<lambda>l. JList (map JInt l)) categories
           else None)
   \<and> dict_get (update_post_data title content status excerpt categories tags featured_media)
        ''tags''
        = (if truthy_list tags then map_option (\<lambda>l. JList (map JInt l)) tags else None)
   \<and> dict_get (update_post_data title content status excerpt categories tags featured_media)
        ''featured_media'' = (if truthy_int featured_media then map_option JInt featured_media
                              else None)
   \<and> set (dict_keys (update_post_data title content status excerpt categories tags
                       featured_media))
        \<subseteq> {''title'', ''content'', ''status'', ''excerpt'', ''categories'', ''tags'',
            ''featured_media''}
   \<and> distinct (dict_keys (update_post_data title content status excerpt categories tags
                            featured_media))
   \<and> JNull \<notin> snd ` set (update_post_data title content status excerpt categories tags
                            featured_media)"
proof -
  have gets:
    "dict_get (update_post_data title content status excerpt categories tags featured_media)
        ''title'' = (if truthy_str title then map_option JStr title else None)"
    "dict_get (update_post_data title content status excerpt categories tags featured_media)
        ''content'' = (if truthy_str content then map_option JStr content else None)"
    "dict_get (update_post_data title content status excerpt categories tags featured_media)
        ''status'' = (if truthy_str status then map_option JStr status else None)"
    "dict_get (update_post_data title content status excerpt categories tags featured_media)
        ''excerpt'' = (if truthy_str excerpt then map_option JStr excerpt else None)"
    "dict_get (update_post_data title content status excerpt categories tags featured_media)
        ''categories''
        = (if truthy_list categories then map_option (\<lambda>l. JList (map JInt l)) categories
           else None)"
    "dict_get (update_post_data title content status excerpt categories tags featured_media)
        ''tags''
        = (if truthy_list tags then map_option (\<lambda>l. JList (map JInt l)) tags else None)"
    "dict_get (update_post_data title content status excerpt categories tags featured_media)
        ''featured_media'' = (if truthy_int featured_media then map_option JInt featured_media
                              else None)"
    by (simp_all add: update_post_data_def Let_def get_set_if_str get_set_if_list get_set_if_int
        dict_get_Nil)
  have req: "sent (snd (update_post plat self post_id title content status excerpt categories tags
       featured_media st))
     = sent st @ [\<lparr>http_method = ''POST'',
                    url = base_url self @ ''/wp/v2/posts/'' @ str_int post_id,
                    params = None, data = None,
                    json_body = Some (JObject (update_post_data title content status excerpt
                                                 categories tags featured_media)),
                    headers = get_default_headers self\<rparr>]"
    by (simp add: update_post_def post_sent prepared_request_def request_url_def lstrip_def
        effective_headers_def)
  show ?thesis
    by (intro conjI) (fact gets req update_post_keys update_post_distinct update_post_no_null)+
qed


text \<open>\<open>update_post(post_id=7, title="New")\<close> sends the body \<open>{"title": "New"}\<close>.\<close>

lemma str_int_7: "str_int 7 = ''7''" by code_simp

theorem update_post_body_witness:
  "sent (snd (update_post (example_platform [])
      (WordPressClient_init [] ''https://example.com/wp-json'' None None (Some ''tok'') None)
      7 (Some ''New'') None None None None None None io0))
     = [\<lparr>http_method = ''POST'', url = ''https://example.com/wp-json/wp/v2/posts/7'',
         params = None, data = None, json_body = Some (JObject [(''title'', JStr ''New'')]),
         headers = [(''Content-Type'', ''application/json''), (''Accept'', ''application/json''),
                    (''User-Agent'', ''BoomPahConnect/0.1.0'')]\<rparr>]
   \<and> dict_get (update_post_data (Some ''New'') None None None None None None) ''content'' = None"
  using update_post_body [of "example_platform []"
      "WordPressClient_init [] ''https://example.com/wp-json'' None None (Some ''tok'') None"
      7 "Some ''New''" None None None None None None io0]
  by (simp add: str_int_7 io0_def WordPressClient_init_def APIClient_init_def rstrip_def
      update_post_data_def set_if_str_def set_if_list_def set_if_int_def truthy_str_def
      get_default_headers_def APIClient_get_default_headers_def)

text \<open>
  Claim C6 as stated fails for an argument that is supplied and falsy:
  \<open>update_post(7, excerpt="", featured_media=0)\<close> sends the empty body.
\<close>

theorem update_post_body_counterexample:
  "json_body (last (sent (snd (update_post (example_platform [])
      (WordPressClient_init [] ''https://example.com/wp-json'' None None (Some ''tok'') None)
      7 None None None (Some []) None None (Some 0) io0))))
     = Some (JObject [])"
  by (simp add: update_post_def post_sent prepared_request_def update_post_data_def
      set_if_str_def set_if_list_def set_if_int_def)

lemma dict_get_Cons:
  "dict_get ((k, v) # d) k' = (if k' = k then Some v else dict_get d k')"
  by (simp add: dict_get_def)

text \<open>
  Claim C7, as amended. Every call of \<open>get_posts\<close> issues one GET to \<open>wp/v2/posts\<close>
  whose query parameters hold \<open>per_page = limit\<close>, \<open>page = page\<close> and
  \<open>status = status\<close>; they hold \<open>search\<close> exactly when the search term is given and
  not empty, and \<open>categories\<close> (\<open>tags\<close>) exactly when that list is given and not
  empty, as the decimal ids joined by commas; there is no other key.
\<close>

theorem get_posts_query:
  "sent (snd (get_posts plat self limit page search categories tags status st))
     = sent st @ [\<lparr>http_method = ''GET'', url = base_url self @ ''/wp/v2/posts'',
                    params = Some (get_posts_params limit page search categories tags status),
                    data = None, json_body = None, headers = get_default_headers self\<rparr>]
   \<and> dict_get (get_posts_params limit page search categories tags status) ''per_page''
       = Some (JInt limit)
   \<and> dict_get (get_posts_params limit page search categories tags status) ''page''
       = Some (JInt page)
   \<and> dict_get (get_posts_params limit page search categories tags status) ''status''
       = Some (JStr status)
   \<and> dict_get (get_posts_params limit page search categories tags status) ''search''
       = (if truthy_str search then map_option JStr search else None)
   \<and> dict_get (get_posts_params limit page search categories tags status) ''categories''
       = (if truthy_list categories
          then map_option (\<lambda>l. JStr (join '','' (map str_int l))) categories else None)
   \<and> dict_get (get_posts_params limit page search categories tags status) ''tags''
       = (if truthy_list tags
          then map_option (\<lambda>l. JStr (join '','' (map str_int l))) tags else None)
   \<and> set (dict_keys (get_posts_params limit page search categories tags status))
       \<subseteq> {''per_page'', ''page'', ''status'', ''search'', ''categories'', ''tags''}"
proof -
  have gets:
    "dict_get (get_posts_params limit page search categories tags status) ''per_page''
       = Some (JInt limit)"
    "dict_get (get_posts_params limit page search categories tags status) ''page''
       = Some (JInt page)"
    "dict_get (get_posts_params limit page search categories tags status) ''status''
       = Some (JStr status)"
    "dict_get (get_posts_params limit page search categories tags status) ''search''
       = (if truthy_str search then map_option JStr search else None)"
    "dict_get (get_posts_params limit page search categories tags status) ''categories''
       = (if truthy_list categories
          then map_option (\<lambda>l. JStr (join '','' (map str_int l))) categories else None)"
    "dict_get (get_posts_params limit page search categories tags status) ''tags''
       = (if truthy_list tags
          then map_option (\<lambda>l. JStr (join '','' (map str_int l))) tags else None)"
    by (simp_all add: get_posts_params_def Let_def get_set_if_str get_set_if_joined
        dict_get_Cons dict_get_Nil)
  have keys: "set (dict_keys (get_posts_params limit page search categories tags status))
       \<subseteq> {''per_page'', ''page'', ''status'', ''search'', ''categories'', ''tags''}"
    unfolding get_posts_params_def Let_def
    by (intro keys_set_if) (simp_all add: dict_keys_def)
  have req: "sent (snd (get_posts plat self limit page search categories tags status st))
     = sent st @ [\<lparr>http_method = ''GET'', url = base_url self @ ''/wp/v2/posts'',
                    params = Some (get_posts_params limit page search categories tags status),
                    data = None, json_body = None, headers = get_default_headers self\<rparr>]"
    by (simp add: get_posts_def get_sent prepared_request_def request_url_def lstrip_def
        effective_headers_def)
  show ?thesis
    by (intro conjI) (fact gets req keys)+
qed

text \<open>\<open>get_posts(limit=5, page=2)\<close>, and a category filter.\<close>

lemma join_3_14: "join '','' [str_int 3, str_int 14] = ''3,14''" by code_simp

theorem get_posts_query_witness:
  "params (last (sent (snd (get_posts (example_platform [])
      (WordPressClient_init [] ''https://example.com/wp-json'' None None (Some ''tok'') None)
      5 2 None None None ''publish'' io0))))
     = Some [(''per_page'', JInt 5), (''page'', JInt 2), (''status'', JStr ''publish'')]
   \<and> dict_get (get_posts_params 10 1 None (Some [3, 14]) None ''publish'') ''categories''
     = Some (JStr ''3,14'')"
  using get_posts_query [of "example_platform []"
      "WordPressClient_init [] ''https://example.com/wp-json'' None None (Some ''tok'') None"
      5 2 None None None "''publish''" io0]
    get_posts_query [of "example_platform []"
      "WordPressClient_init [] ''https://example.com/wp-json'' None None (Some ''tok'') None"
      10 1 None "Some [3, 14]" None "''publish''" io0]
  by (simp add: join_3_14 truthy_list_def get_posts_params_def set_if_str_def
      set_if_joined_def del: join.simps)

text \<open>
  Claim C7 as stated fails for a filter that is provided and empty:
  \<open>get_posts(search="", categories=[])\<close> sends neither key.
\<close>

theorem get_posts_query_counterexample:
  "params (last (sent (snd (get_posts (example_platform [])
      (WordPressClient_init [] ''https://example.com/wp-json'' None None (Some ''tok'') None)
      10 1 (Some []) (Some []) None ''publish'' io0))))
     = Some [(''per_page'', JInt 10), (''page'', JInt 1), (''status'', JStr ''publish'')]"
  by (simp add: get_posts_def get_sent prepared_request_def get_posts_params_def set_if_str_def
      set_if_joined_def)

section \<open>Media upload\<close>

lemma dict_set_not_Nil: "dict_set d k v \<noteq> []"
  by (cases d) (auto split: if_splits)

lemma set_if_str_not_Nil: "d \<noteq> [] \<or> truthy_str x \<Longrightarrow> set_if_str d k x \<noteq> []"
  by (cases x) (auto simp: set_if_str_def truthy_str_def dict_set_not_Nil)

lemma truthy_metadata:
  "truthy_str title \<or> truthy_str caption \<or> truthy_str alt_text \<Longrightarrow>
   upload_metadata title caption alt_text \<noteq> []"
  unfolding upload_metadata_def Let_def by (metis set_if_str_not_Nil)

lemma upload_headers_get:
  "dict_get (effective_headers self (Some (upload_headers plat file_path))) ''Content-Type''
     = Some (case fst (guess_type plat file_path) of
               None \<Rightarrow> ''application/octet-stream''
             | Some m \<Rightarrow> if m \<noteq> [] then m else ''application/octet-stream'')"
  "dict_get (effective_headers self (Some (upload_headers plat file_path)))
     ''Content-Disposition''
     = Some (''attachment; filename='' @ [CHR 0x22] @ basename file_path @ [CHR 0x22])"
  by (simp_all add: effective_headers_def upload_headers_def Let_def dict_get_update
      dict_keys_def dict_get_Cons dict_get_Nil)

lemma upload_sent:
  assumes "read_bytes plat file_path = Some media_data"
  shows "\<exists>rest. sent (snd (upload_media plat self file_path title caption alt_text st))
           = sent st @ prepared_request self ''POST'' ''wp/v2/media'' None (Some media_data) None
                         (Some (upload_headers plat file_path)) # rest"
proof -
  obtain r1 st1 where p: "APIClient_post plat self ''wp/v2/media'' (Some media_data) None
      (Some (upload_headers plat file_path)) st = (r1, st1)"
    by fastforce
  have s1: "sent st1 = sent st @ [prepared_request self ''POST'' ''wp/v2/media'' None
      (Some media_data) None (Some (upload_headers plat file_path))]"
    using post_sent [of plat self "''wp/v2/media''" "Some media_data" None
        "Some (upload_headers plat file_path)" st] p by simp
  show ?thesis
    by (auto simp: upload_media_def Let_def assms p s1 post_sent split: sum.splits)
qed

text \<open>
  Claim C9. For every file path that can be read, the first request of \<open>upload_media\<close>
  is a POST of the file's bytes to \<open>wp/v2/media\<close> whose Content-Type header is the
  type that \<open>mimetypes.guess_type\<close> gives for the path, and
  \<open>application/octet-stream\<close> when it gives none, and whose Content-Disposition
  header is \<open>attachment; filename="..."\<close> with the base name of the path. So a path
  guessed as \<open>image/png\<close> is sent as \<open>image/png\<close>.
\<close>

theorem upload_media_headers:
  assumes "read_bytes plat file_path = Some media_data"
  shows "\<exists>rest hs.
           sent (snd (upload_media plat self file_path title caption alt_text st))
             = sent st @ \<lparr>http_method = ''POST'', url = base_url self @ ''/wp/v2/media'',
                           params = None, data = Some media_data, json_body = None,
                           headers = hs\<rparr> # rest
           \<and> dict_get hs ''Content-Type''
               = Some (case fst (guess_type plat file_path) of
                         None \<Rightarrow> ''application/octet-stream''
                       | Some m \<Rightarrow> if m \<noteq> [] then m else ''application/octet-stream'')
           \<and> dict_get hs ''Content-Disposition''
               = Some (''attachment; filename='' @ [CHR 0x22] @ basename file_path @ [CHR 0x22])
           \<and> (fst (guess_type plat file_path) = Some ''image/png''
                \<longrightarrow> dict_get hs ''Content-Type'' = Some ''image/png'')
           \<and> (fst (guess_type plat file_path) = None
                \<longrightarrow> dict_get hs ''Content-Type'' = Some ''application/octet-stream'')"
proof -
  from upload_sent [OF assms] obtain rest where
    "sent (snd (upload_media plat self file_path title caption alt_text st))
       = sent st @ prepared_request self ''POST'' ''wp/v2/media'' None (Some media_data) None
                     (Some (upload_headers plat file_path)) # rest"
    by blast
  then have 1: "sent (snd (upload_media plat self file_path title caption alt_text st))
             = sent st @ \<lparr>http_method = ''POST'', url = base_url self @ ''/wp/v2/media'',
                           params = None, data = Some media_data, json_body = None,
                           headers = effective_headers self
                                       (Some (upload_headers plat file_path))\<rparr> # rest"
    by (simp add: prepared_request_def request_url_def lstrip_def)
  have 2: "fst (guess_type plat file_path) = Some ''image/png''
      \<longrightarrow> dict_get (effective_headers self (Some (upload_headers plat file_path)))
            ''Content-Type'' = Some ''image/png''"
    by (simp add: upload_headers_get)
  have 3: "fst (guess_type plat file_path) = None
      \<longrightarrow> dict_get (effective_headers self (Some (upload_headers plat file_path)))
            ''Content-Type'' = Some ''application/octet-stream''"
    by (simp add: upload_headers_get)
  show ?thesis
    by (intro exI [of _ rest]
        exI [of _ "effective_headers self (Some (upload_headers plat file_path))"] conjI)
      (fact 1 2 3 upload_headers_get)+
qed

text \<open>
  Claim C10, as amended. Let the upload POST return \<open>r1\<close>. When one of title, caption
  and alt text is non-empty, \<open>r1\<close> has an \<open>id\<close>, and the metadata POST to
  \<open>wp/v2/media/{id}\<close> returns \<open>r2\<close>, then \<open>upload_media\<close> returns \<open>r2\<close> and has
  issued exactly these two requests. When none of the three is truthy, it returns
  \<open>r1\<close> and has issued the upload alone.
\<close>

theorem upload_media_result:
  assumes "read_bytes plat file_path = Some media_data"
    and "APIClient_post plat self ''wp/v2/media'' (Some media_data) None
           (Some (upload_headers plat file_path)) st = (Inr r1, st1)"
  shows "((truthy_str title \<or> truthy_str caption \<or> truthy_str alt_text)
           \<and> subscript r1 ''id'' = Inr media_id
           \<and> APIClient_post plat self (''wp/v2/media/'' @ format_value plat media_id) None
               (Some (JObject (upload_metadata title caption alt_text))) None st1
               = (Inr r2, st2)
          \<longrightarrow> upload_media plat self file_path title caption alt_text st = (Inr r2, st2)
              \<and> sent st2
                  = sent st
                    @ [prepared_request self ''POST'' ''wp/v2/media'' None (Some media_data) None
                         (Some (upload_headers plat file_path)),
                       prepared_request self ''POST''
                         (''wp/v2/media/'' @ format_value plat media_id) None None
                         (Some (JObject (upload_metadata title caption alt_text))) None])
       \<and> (\<not> (truthy_str title \<or> truthy_str caption \<or> truthy_str alt_text)
          \<longrightarrow> upload_media plat self file_path title caption alt_text st = (Inr r1, st1)
              \<and> sent st1
                  = sent st
                    @ [prepared_request self ''POST'' ''wp/v2/media'' None (Some media_data) None
                         (Some (upload_headers plat file_path))])"
proof -
  have s1: "sent st1 = sent st @ [prepared_request self ''POST'' ''wp/v2/media'' None
      (Some media_data) None (Some (upload_headers plat file_path))]"
    using post_sent [of plat self "''wp/v2/media''" "Some media_data" None
        "Some (upload_headers plat file_path)" st] assms(2) by simp
  have a: "upload_media plat self file_path title caption alt_text st = (Inr r2, st2)
           \<and> sent st2 = sent st1 @ [prepared_request self ''POST''
                         (''wp/v2/media/'' @ format_value plat media_id) None None
                         (Some (JObject (upload_metadata title caption alt_text))) None]"
    if t: "truthy_str title \<or> truthy_str caption \<or> truthy_str alt_text"
      and i: "subscript r1 ''id'' = Inr media_id"
      and p2: "APIClient_post plat self (''wp/v2/media/'' @ format_value plat media_id) None
               (Some (JObject (upload_metadata title caption alt_text))) None st1
               = (Inr r2, st2)"
  proof -
    have "upload_metadata title caption alt_text \<noteq> []"
      using t by (rule truthy_metadata)
    then have "upload_media plat self file_path title caption alt_text st = (Inr r2, st2)"
      using t i p2 by (simp add: upload_media_def Let_def assms)
    moreover have "sent st2 = sent st1 @ [prepared_request self ''POST''
                         (''wp/v2/media/'' @ format_value plat media_id) None None
                         (Some (JObject (upload_metadata title caption alt_text))) None]"
      using post_sent [of plat self "''wp/v2/media/'' @ format_value plat media_id" None
          "Some (JObject (upload_metadata title caption alt_text))" None st1] p2 by simp
    ultimately show ?thesis by simp
  qed
  have b: "upload_media plat self file_path title caption alt_text st = (Inr r1, st1)"
    if "\<not> (truthy_str title \<or> truthy_str caption \<or> truthy_str alt_text)"
    using that by (simp add: upload_media_def Let_def assms)
  show ?thesis
    using a b s1 by simp
qed


text \<open>The examples: a PNG file and a file of unknown type, against a server that
  answers the upload with \<open>{"id": 42}\<close> and the metadata update with
  \<open>{"id": 42, "title": "Logo"}\<close>.\<close>

lemma request_world:
  "world (snd (APIClient_request plat self meth endpoint ps dat js hdrs st))
     = snd (session_request plat (world st) (session_headers self)
              (prepared_request self meth endpoint ps dat js hdrs))"
  by (simp add: APIClient_request_def Let_def split: prod.splits sum.splits option.splits)

lemma request_result:
  "fst (APIClient_request plat self meth endpoint ps dat js hdrs st)
     = (case fst (session_request plat (world st) (session_headers self)
                    (prepared_request self meth endpoint ps dat js hdrs)) of
          Inl e \<Rightarrow> Inl e
        | Inr resp \<Rightarrow>
            (case raise_for_status resp of
               Inl e \<Rightarrow> Inl e
             | Inr _ \<Rightarrow>
                 (case json_loads plat (resp_text resp) of
                    Some j \<Rightarrow> Inr j
                  | None \<Rightarrow> Inr (JObject []))))"
  by (simp add: APIClient_request_def Let_def split: prod.splits sum.splits option.splits)

lemma example_client_fields:
  "base_url example_client = ''https://example.com/wp-json''"
  "user_agent example_client = None"
  by (simp_all add: example_client_def WordPressClient_init_def APIClient_init_def rstrip_def)

lemma example_platform_fields:
  "json_loads (example_platform rs) = example_loads"
  "session_request (example_platform rs) = scripted rs"
  "read_bytes (example_platform rs) ''/tmp/logo.png'' = Some ''bytes''"
  "read_bytes (example_platform rs) ''/tmp/notes.xyz'' = Some ''bytes''"
  "fst (guess_type (example_platform rs) ''/tmp/logo.png'') = Some ''image/png''"
  "fst (guess_type (example_platform rs) ''/tmp/notes.xyz'') = None"
  by (simp_all add: example_platform_def)

lemma example_loads_bodies:
  "example_loads body_media = Some (JObject [(''id'', JInt 42)])"
  "example_loads body_titled = Some (JObject [(''id'', JInt 42), (''title'', JStr ''Logo'')])"
  by (simp_all add: example_loads_def body_error_def body_media_def body_titled_def)

lemma basename_examples:
  "basename ''/tmp/logo.png'' = ''logo.png''"
  "basename ''/tmp/notes.xyz'' = ''notes.xyz''"
  by (simp_all add: basename_def)

lemma str_int_42: "str_int 42 = ''42''" by code_simp

theorem upload_media_headers_witness:
  "dict_get (headers (hd (sent (snd (upload_media (example_platform upload_script) example_client
      ''/tmp/logo.png'' None None None io0))))) ''Content-Type'' = Some ''image/png''
   \<and> dict_get (headers (hd (sent (snd (upload_media (example_platform upload_script)
      example_client ''/tmp/logo.png'' None None None io0))))) ''Content-Disposition''
     = Some (''attachment; filename='' @ [CHR 0x22] @ ''logo.png'' @ [CHR 0x22])
   \<and> dict_get (headers (hd (sent (snd (upload_media (example_platform upload_script)
      example_client ''/tmp/notes.xyz'' None None None io0))))) ''Content-Type''
     = Some ''application/octet-stream''"
proof -
  from upload_media_headers [OF example_platform_fields(3), of upload_script example_client
      None None None io0]
  have 1: "dict_get (headers (hd (sent (snd (upload_media (example_platform upload_script)
      example_client ''/tmp/logo.png'' None None None io0))))) ''Content-Type''
        = Some ''image/png''
     \<and> dict_get (headers (hd (sent (snd (upload_media (example_platform upload_script)
      example_client ''/tmp/logo.png'' None None None io0))))) ''Content-Disposition''
        = Some (''attachment; filename='' @ [CHR 0x22] @ ''logo.png'' @ [CHR 0x22])"
    by (auto simp: io0_def example_platform_fields basename_examples)
  from upload_media_headers [OF example_platform_fields(4), of upload_script example_client
      None None None io0]
  have 2: "dict_get (headers (hd (sent (snd (upload_media (example_platform upload_script)
      example_client ''/tmp/notes.xyz'' None None None io0))))) ''Content-Type''
        = Some ''application/octet-stream''"
    by (auto simp: io0_def example_platform_fields)
  from 1 2 show ?thesis by simp
qed

lemma first_upload:
  "fst (APIClient_post (example_platform upload_script) example_client ''wp/v2/media''
      (Some ''bytes'') None (Some (upload_headers (example_platform upload_script)
      ''/tmp/logo.png'')) io0) = Inr (JObject [(''id'', JInt 42)])"
  "world (snd (APIClient_post (example_platform upload_script) example_client ''wp/v2/media''
      (Some ''bytes'') None (Some (upload_headers (example_platform upload_script)
      ''/tmp/logo.png'')) io0)) = Suc 0"
  by (simp_all add: APIClient_post_def request_result request_world example_platform_fields
      scripted_def upload_script_def io0_def raise_for_status_def ok_response_def
      example_loads_bodies)

lemma second_upload:
  "world st = Suc 0 \<Longrightarrow>
   fst (APIClient_post (example_platform upload_script) example_client ''wp/v2/media/42''
      None js None st) = Inr (JObject [(''id'', JInt 42), (''title'', JStr ''Logo'')])"
  by (simp add: APIClient_post_def request_result example_platform_fields
      scripted_def upload_script_def raise_for_status_def ok_response_def
      example_loads_bodies)

theorem upload_media_result_witness:
  "fst (upload_media (example_platform upload_script) example_client ''/tmp/logo.png''
      (Some ''Logo'') None None io0)
     = Inr (JObject [(''id'', JInt 42), (''title'', JStr ''Logo'')])
   \<and> map url (sent (snd (upload_media (example_platform upload_script) example_client
      ''/tmp/logo.png'' (Some ''Logo'') None None io0)))
     = [''https://example.com/wp-json/wp/v2/media'',
        ''https://example.com/wp-json/wp/v2/media/42'']
   \<and> fst (upload_media (example_platform upload_script) example_client ''/tmp/logo.png''
      None None None io0)
     = Inr (JObject [(''id'', JInt 42)])
   \<and> map url (sent (snd (upload_media (example_platform upload_script) example_client
      ''/tmp/logo.png'' None None None io0)))
     = [''https://example.com/wp-json/wp/v2/media'']"
proof -
  let ?P = "example_platform upload_script"
  define st1 where "st1 = snd (APIClient_post ?P example_client ''wp/v2/media'' (Some ''bytes'')
      None (Some (upload_headers ?P ''/tmp/logo.png'')) io0)"
  define st2 where "st2 = snd (APIClient_post ?P example_client ''wp/v2/media/42'' None
      (Some (JObject (upload_metadata (Some ''Logo'') None None))) None st1)"
  have h1: "APIClient_post ?P example_client ''wp/v2/media'' (Some ''bytes'') None
      (Some (upload_headers ?P ''/tmp/logo.png'')) io0 = (Inr (JObject [(''id'', JInt 42)]), st1)"
    unfolding st1_def using first_upload(1) by (simp add: prod_eq_iff)
  have w1: "world st1 = Suc 0"
    unfolding st1_def by (rule first_upload(2))
  have h2: "APIClient_post ?P example_client (''wp/v2/media/'' @ format_value ?P (JInt 42)) None
      (Some (JObject (upload_metadata (Some ''Logo'') None None))) None st1
      = (Inr (JObject [(''id'', JInt 42), (''title'', JStr ''Logo'')]), st2)"
    unfolding st2_def using second_upload [OF w1]
    by (simp add: prod_eq_iff format_value_def str_int_42)
  have i: "subscript (JObject [(''id'', JInt 42)]) ''id'' = Inr (JInt 42)"
    by (simp add: subscript_def dict_get_def)
  have t: "truthy_str (Some ''Logo'') \<or> truthy_str None \<or> truthy_str None"
    by (simp add: truthy_str_def)
  have n: "\<not> (truthy_str None \<or> truthy_str None \<or> truthy_str None)"
    by (simp add: truthy_str_def)
  note r = upload_media_result [OF example_platform_fields(3) h1]
  have a: "upload_media ?P example_client ''/tmp/logo.png'' (Some ''Logo'') None None io0
      = (Inr (JObject [(''id'', JInt 42), (''title'', JStr ''Logo'')]), st2)"
    and a': "sent st2 = sent io0
         @ [prepared_request example_client ''POST'' ''wp/v2/media'' None (Some ''bytes'') None
              (Some (upload_headers ?P ''/tmp/logo.png'')),
            prepared_request example_client ''POST''
              (''wp/v2/media/'' @ format_value ?P (JInt 42)) None None
              (Some (JObject (upload_metadata (Some ''Logo'') None None))) None]"
    using r [of "Some ''Logo''" None None "JInt 42"
        "JObject [(''id'', JInt 42), (''title'', JStr ''Logo'')]" st2] t i h2 by blast+
  have b: "upload_media ?P example_client ''/tmp/logo.png'' None None None io0
      = (Inr (JObject [(''id'', JInt 42)]), st1)"
    and b': "sent st1 = sent io0
         @ [prepared_request example_client ''POST'' ''wp/v2/media'' None (Some ''bytes'') None
              (Some (upload_headers ?P ''/tmp/logo.png''))]"
    using r [of None None None] n by blast+
  have u: "map url (sent st2) = [''https://example.com/wp-json/wp/v2/media'',
        ''https://example.com/wp-json/wp/v2/media/42'']"
    "map url (sent st1) = [''https://example.com/wp-json/wp/v2/media'']"
    unfolding a' b'
    by (simp_all add: io0_def prepared_request_def request_url_def lstrip_def
        example_client_fields format_value_def str_int_42)
  show ?thesis
    unfolding a b using u by simp
qed

text \<open>
  Claim C10 as stated fails for a title that is supplied and empty: on the same server,
  which would answer the second request, \<open>upload_media\<close> issues the upload alone and
  returns its response.
\<close>

theorem upload_media_result_counterexample:
  "fst (upload_media (example_platform upload_script) example_client ''/tmp/logo.png''
      (Some []) None None io0)
     = Inr (JObject [(''id'', JInt 42)])
   \<and> map url (sent (snd (upload_media (example_platform upload_script) example_client
      ''/tmp/logo.png'' (Some []) None None io0)))
     = [''https://example.com/wp-json/wp/v2/media'']"
proof -
  let ?P = "example_platform upload_script"
  define st1 where "st1 = snd (APIClient_post ?P example_client ''wp/v2/media'' (Some ''bytes'')
      None (Some (upload_headers ?P ''/tmp/logo.png'')) io0)"
  have h1: "APIClient_post ?P example_client ''wp/v2/media'' (Some ''bytes'') None
      (Some (upload_headers ?P ''/tmp/logo.png'')) io0 = (Inr (JObject [(''id'', JInt 42)]), st1)"
    unfolding st1_def using first_upload(1) by (simp add: prod_eq_iff)
  have s1: "sent st1 = [prepared_request example_client ''POST'' ''wp/v2/media'' None
      (Some ''bytes'') None (Some (upload_headers ?P ''/tmp/logo.png''))]"
    unfolding st1_def by (simp add: post_sent io0_def)
  have "upload_media ?P example_client ''/tmp/logo.png'' (Some []) None None io0
      = (Inr (JObject [(''id'', JInt 42)]), st1)"
    by (simp add: upload_media_def Let_def example_platform_fields h1 truthy_str_def)
  then show ?thesis
    by (simp add: s1 prepared_request_def request_url_def lstrip_def example_client_fields)
qed

end
